theory Spec2Isabelle
  imports Complex_Main
begin

section \<open>The limits engine of autothrottle\<close>

text \<open>
  Go's \<^verbatim>\<open>float64\<close> quantities (rates, capacities and portions, all in MB/s or percent)
  are modelled by the real numbers they denote: \<^verbatim>\<open>math.Max\<close> is \<open>max\<close>, and the
  comparisons and arithmetic are those of the reals. Rounding and the non-finite values
  (NaN, the infinities) are outside this model.

  A Go \<^verbatim>\<open>error\<close> built by \<^verbatim>\<open>errors.New\<close> is modelled by its message. A function that
  returns \<^verbatim>\<open>(float64, error)\<close> returns both components, the second being \<open>None\<close>
  for \<^verbatim>\<open>nil\<close>.
\<close>

type_synonym float64 = real

type_synonym error = string

text \<open>\<^verbatim>\<open>type Limits map[string]float64\<close>\<close>

type_synonym Limits = "string \<rightharpoonup> float64"

text \<open>
  Indexing a Go map with a key that is absent yields the zero value; this is how
  \<^verbatim>\<open>l["minimum"]\<close>, \<^verbatim>\<open>l["maximum"]\<close>, \<^verbatim>\<open>l["srcMax"]\<close> and \<^verbatim>\<open>l["dstMax"]\<close> are read.
\<close>

definition index :: "Limits \<Rightarrow> string \<Rightarrow> float64" where
  "index l k = (case l k of None \<Rightarrow> 0 | Some v \<Rightarrow> v)"

record NewLimitsConfig =
  Minimum :: float64
  Maximum :: float64
  SourceMaximum :: float64
  DestinationMaximum :: float64
  CapacityMap :: "string \<rightharpoonup> float64"

text \<open>
  \<^verbatim>\<open>NewLimits\<close>: the \<^verbatim>\<open>switch\<close> tries its cases in order and the first that holds returns
  \<^verbatim>\<open>(nil, err)\<close>. Otherwise the map literal is built and the loop
  \<^verbatim>\<open>for k, v := range c.CapacityMap { lim[k] = v }\<close> stores every entry of the capacity
  map into it. The keys of a Go map are distinct, so the stores commute and the map after
  the loop is the literal overridden by the capacity map, whatever the iteration order.
\<close>

definition NewLimits :: "NewLimitsConfig \<Rightarrow> error + Limits" where
  "NewLimits c =
     (if Minimum c \<le> 0 then Inl ''minimum must be > 0''
      else if Maximum c \<le> 0 \<or> Maximum c > 100 then Inl ''maximum must be > 0 and < 100''
      else if SourceMaximum c \<le> 0 \<or> SourceMaximum c > 100
        then Inl ''source maximum must be > 0 and < 100''
      else if DestinationMaximum c \<le> 0 \<or> DestinationMaximum c > 100
        then Inl ''destination maximum must be > 0 and < 100''
      else Inr ([''minimum'' \<mapsto> Minimum c,
                 ''maximum'' \<mapsto> Maximum c,
                 ''srcMax'' \<mapsto> SourceMaximum c,
                 ''dstMax'' \<mapsto> DestinationMaximum c] ++ CapacityMap c))"

text \<open>
  Modelled from the spec: \<^verbatim>\<open>kafkametrics.Broker\<close>, whose declaration is in another package.
  A broker has an identity, an instance type (the key into the capacity table), and its
  observed outbound (\<^verbatim>\<open>NetTX\<close>) and inbound (\<^verbatim>\<open>NetRX\<close>) rates. The functions below take
  a \<^verbatim>\<open>*kafkametrics.Broker\<close>; the nil pointer is \<open>None\<close>.
\<close>

record Broker =
  ID :: int
  InstanceType :: string
  NetTX :: float64
  NetRX :: float64

text \<open>
  Modelled from the spec: \<^verbatim>\<open>type replicaType string\<close>, declared in another file. The role
  of a source broker is the string \<^verbatim>\<open>"leader"\<close> and that of a destination broker is
  \<^verbatim>\<open>"follower"\<close>, as the \<^verbatim>\<open>switch\<close> of \<^verbatim>\<open>replicationHeadroom\<close> has them.
\<close>

type_synonym replicaType = string

definition headroom :: "Limits \<Rightarrow> Broker option \<Rightarrow> float64 \<Rightarrow> float64 \<times> error option" where
  "headroom l b t =
     (case b of
        None \<Rightarrow> (index l ''minimum'', Some ''Nil broker provided'')
      | Some br \<Rightarrow>
          (case l (InstanceType br) of
             Some capacity \<Rightarrow>
               (let nonThrottleUtil = max (NetTX br - t) 0;
                    overCap = max (NetTX br - capacity) 0
                in (max ((capacity - nonThrottleUtil - overCap) * (index l ''maximum'' / 100))
                        (index l ''minimum''), None))
           | None \<Rightarrow> (index l ''minimum'', Some ''Unknown instance type'')))"

text \<open>
  \<^verbatim>\<open>replicationHeadroom\<close> has no nil check: in the \<^verbatim>\<open>"leader"\<close> and \<^verbatim>\<open>"follower"\<close> cases
  it reads a field of \<^verbatim>\<open>b\<close> at once, which panics on a nil pointer. The \<^verbatim>\<open>default\<close> case
  returns before \<^verbatim>\<open>b\<close> is touched.
\<close>

datatype panic = NilPointerDereference

text \<open>The part of \<^verbatim>\<open>replicationHeadroom\<close> after the \<^verbatim>\<open>switch\<close>, with the two variables
  the \<^verbatim>\<open>switch\<close> assigns.\<close>

definition replicationHeadroom_rate ::
  "Limits \<Rightarrow> Broker \<Rightarrow> float64 \<Rightarrow> float64 \<Rightarrow> float64 \<Rightarrow> float64 \<times> error option" where
  "replicationHeadroom_rate l br currNetUtilization maxRatio prevThrottle =
     (case l (InstanceType br) of
        Some capacity \<Rightarrow>
          (let nonThrottleUtil = max (NetTX br - prevThrottle) 0;
               overCap = max (currNetUtilization - capacity) 0
           in (max ((capacity - nonThrottleUtil - overCap) * (maxRatio / 100))
                   (index l ''minimum''), None))
      | None \<Rightarrow> (index l ''minimum'', Some ''Unknown instance type''))"

definition replicationHeadroom ::
  "Limits \<Rightarrow> Broker option \<Rightarrow> replicaType \<Rightarrow> float64 \<Rightarrow> panic + float64 \<times> error option" where
  "replicationHeadroom l b rt prevThrottle =
     (if rt = ''leader'' then
        (case b of
           None \<Rightarrow> Inl NilPointerDereference
         | Some br \<Rightarrow> Inr (replicationHeadroom_rate l br (NetTX br) (index l ''srcMax'') prevThrottle))
      else if rt = ''follower'' then
        (case b of
           None \<Rightarrow> Inl NilPointerDereference
         | Some br \<Rightarrow> Inr (replicationHeadroom_rate l br (NetRX br) (index l ''dstMax'') prevThrottle))
      else Inr (0, Some ''invalid replica type''))"

subsection \<open>The rate formula, as the specification words it\<close>

text \<open>
  The specification gives the rate as
  \<open>max((capacity - nonThrottleUtil - overCap) * (portion / 100), minimum)\<close> with
  \<open>nonThrottleUtil = max(outbound - previousRate, 0)\<close> and
  \<open>overCap = max(utilization - capacity, 0)\<close>. The two terms and the formula are written
  here from those words, to be compared with what the code computes.
\<close>

definition spec_nonThrottleUtil :: "float64 \<Rightarrow> float64 \<Rightarrow> float64" where
  "spec_nonThrottleUtil outbound previousRate = max (outbound - previousRate) 0"

definition spec_overCap :: "float64 \<Rightarrow> float64 \<Rightarrow> float64" where
  "spec_overCap utilization capacity = max (utilization - capacity) 0"

definition spec_rate :: "float64 \<Rightarrow> float64 \<Rightarrow> float64 \<Rightarrow> float64 \<Rightarrow> float64 \<Rightarrow> float64" where
  "spec_rate capacity nonThrottleUtil overCap portion minimum =
     max ((capacity - nonThrottleUtil - overCap) * (portion / 100)) minimum"


section \<open>The administrative API and the override record\<close>

text \<open>
  \<^verbatim>\<open>initAPI\<close> and the request handlers work on the override record, one znode of the
  coordination store, through a \<^verbatim>\<open>kafkazk.Handler\<close>.
\<close>

record APIConfig =
  Listen :: string
  ZKPrefix :: string
  RateSetting :: string

definition overrideRateZnode :: string where
  "overrideRateZnode = ''override_rate''"

definition newline :: string where
  "newline = [CHR 0x0A]"

definition incorrectMethod :: string where
  "incorrectMethod = ''disallowed method'' @ newline"

text \<open>
  Modelled from the spec: \<^verbatim>\<open>ThrottleOverrideConfig\<close>, declared in another file of the
  package: the rate in MB/s (0 for no override) and the auto-remove flag. \<^verbatim>\<open>Rate\<close> is a
  Go \<^verbatim>\<open>int\<close>.
\<close>

record ThrottleOverrideConfig =
  Rate :: int
  AutoRemove :: bool

text \<open>
  Modelled from the spec: \<^verbatim>\<open>kafkazk.Handler\<close>, the interface of the coordination store,
  declared in another package. It is taken as a parameter: the four methods that this file
  calls, over a store state \<open>'z\<close>. Each returns what the Go method returns (\<open>None\<close> for
  a nil error); \<^verbatim>\<open>Create\<close> and \<^verbatim>\<open>Set\<close> also return the store after the call.
\<close>

record 'z Handler =
  Exists :: "'z \<Rightarrow> string \<Rightarrow> bool \<times> error option"
  Create :: "'z \<Rightarrow> string \<Rightarrow> string \<Rightarrow> error option \<times> 'z"
  Get :: "'z \<Rightarrow> string \<Rightarrow> string \<times> error option"
  Set :: "'z \<Rightarrow> string \<Rightarrow> string \<Rightarrow> error option \<times> 'z"

text \<open>
  Modelled from the spec: \<^verbatim>\<open>setThrottleOverride\<close>, defined in another file of the package.
  The specification has it serialize the configuration and overwrite the stored record,
  the whole record at once. The serialization is the parameter \<open>encode\<close>.
\<close>

definition setThrottleOverride ::
  "'z Handler \<Rightarrow> (ThrottleOverrideConfig \<Rightarrow> string) \<Rightarrow> 'z \<Rightarrow> string \<Rightarrow> ThrottleOverrideConfig
     \<Rightarrow> error option \<times> 'z" where
  "setThrottleOverride zk encode s p c = Set zk s p (encode c)"

subsection \<open>\<^verbatim>\<open>strconv.Atoi\<close> and \<^verbatim>\<open>%d\<close>\<close>

text \<open>
  \<^verbatim>\<open>strconv.Atoi\<close> of the Go library accepts an optional sign \<^verbatim>\<open>+\<close> or \<^verbatim>\<open>-\<close> followed by
  one or more decimal digits and nothing else, and fails when the value does not fit an
  \<^verbatim>\<open>int\<close> (64 bits here). Its callers in this file only test the error against nil, so
  the failure is \<open>None\<close>.
\<close>

fun digitsValue :: "string \<Rightarrow> nat \<Rightarrow> nat option" where
  "digitsValue [] n = Some n"
| "digitsValue (ch # cs) n =
     (if 48 \<le> (of_char ch :: nat) \<and> (of_char ch :: nat) \<le> 57
      then digitsValue cs (n * 10 + (of_char ch - 48))
      else None)"

definition Atoi :: "string \<Rightarrow> int option" where
  "Atoi s =
     (let neg = (s \<noteq> [] \<and> hd s = CHR ''-'');
          ds = (if s \<noteq> [] \<and> (hd s = CHR ''-'' \<or> hd s = CHR ''+'') then tl s else s)
      in if ds = [] then None
         else (case digitsValue ds 0 of
                 None \<Rightarrow> None
               | Some n \<Rightarrow>
                   (let v = (if neg then - int n else int n)
                    in if - (2 ^ 63) \<le> v \<and> v < 2 ^ 63 then Some v else None)))"

text \<open>The verbs \<^verbatim>\<open>%d\<close> of an \<^verbatim>\<open>int\<close> and \<^verbatim>\<open>%v\<close> of a \<^verbatim>\<open>bool\<close> in \<^verbatim>\<open>fmt.Sprintf\<close>.\<close>

fun showNat :: "nat \<Rightarrow> string" where
  "showNat n =
     (if n < 10 then [''0123456789'' ! n]
      else showNat (n div 10) @ [''0123456789'' ! (n mod 10)])"

declare showNat.simps [simp del]

definition showInt :: "int \<Rightarrow> string" where
  "showInt i = (if i < 0 then CHR ''-'' # showNat (nat (- i)) else showNat (nat i))"

definition showBool :: "bool \<Rightarrow> string" where
  "showBool b = (if b then ''true'' else ''false'')"

subsection \<open>Initialization\<close>

text \<open>
  \<^verbatim>\<open>log.Fatal\<close> prints the error and ends the process: \<open>Fatal\<close>. Otherwise \<^verbatim>\<open>initAPI\<close>
  returns, leaving the configuration with its \<^verbatim>\<open>RateSetting\<close> set, the package variable
  \<^verbatim>\<open>overrideRateZnodePath\<close>, the store, and the lines printed by \<^verbatim>\<open>log.Println\<close>. The
  registration of the routes and the listener goroutine are not modelled.
\<close>

record 'z APIState =
  config :: APIConfig
  overrideRateZnodePath :: string
  store :: 'z
  logged :: "string list"

datatype 'z startup = Fatal error | Running "'z APIState"

definition initAPI ::
  "'z Handler \<Rightarrow> (ThrottleOverrideConfig \<Rightarrow> string) \<Rightarrow> APIConfig \<Rightarrow> 'z \<Rightarrow> 'z startup" where
  "initAPI zk encode c s =
     (let c1 = c\<lparr>RateSetting := overrideRateZnode\<rparr>;
          path = ''/'' @ ZKPrefix c1 @ ''/'' @ overrideRateZnode
      in case Exists zk s path of
           (_, Some err) \<Rightarrow> Fatal err
         | (exists, None) \<Rightarrow>
             (case (if \<not> exists then
                      (case Create zk s (''/'' @ ZKPrefix c1) [] of
                         (Some err, _) \<Rightarrow> Inl err
                       | (None, s1) \<Rightarrow>
                           (case Create zk s1 path [] of
                              (Some err, _) \<Rightarrow> Inl err
                            | (None, s2) \<Rightarrow> Inr s2))
                    else Inr s) of
                Inl err \<Rightarrow> Fatal err
              | Inr s1 \<Rightarrow>
                  (if exists then
                     (let r = fst (Get zk s1 path)
                      in case Atoi r of
                           Some rate \<Rightarrow>
                             (case setThrottleOverride zk encode s1 path
                                     \<lparr>Rate = rate, AutoRemove = False\<rparr> of
                                (Some err, _) \<Rightarrow> Fatal err
                              | (None, s2) \<Rightarrow>
                                  Running \<lparr>config = c1, overrideRateZnodePath = path, store = s2,
                                     logged = [''Throttle override config format updated'']\<rparr>)
                         | None \<Rightarrow>
                             Running \<lparr>config = c1, overrideRateZnodePath = path, store = s1,
                                logged = []\<rparr>)
                   else Running \<lparr>config = c1, overrideRateZnodePath = path, store = s1,
                           logged = []\<rparr>)))"

subsection \<open>The request handlers\<close>

text \<open>
  Of a request the handlers read the method; the query parameters are read by
  \<^verbatim>\<open>parseRateParam\<close> and \<^verbatim>\<open>parseAutoRemoveParam\<close>, which are defined in another file of
  the package and are taken as parameters here, as is \<^verbatim>\<open>getThrottleOverride\<close>. Of the
  response the model keeps the status set by \<^verbatim>\<open>WriteHeader\<close> (\<open>None\<close> while it has not
  been called) and the body written so far. \<^verbatim>\<open>logReq\<close> only writes to the process log and
  \<^verbatim>\<open>parsePaths\<close> returns a value that \<^verbatim>\<open>setThrottle\<close> does not use; neither is
  modelled.
\<close>

record Request =
  Method :: string
  URL :: string

record Response =
  status :: "nat option"
  body :: string

definition WriteString :: "Response \<Rightarrow> string \<Rightarrow> Response" where
  "WriteString w str = w\<lparr>body := body w @ str\<rparr>"

definition WriteHeader :: "Response \<Rightarrow> nat \<Rightarrow> Response" where
  "WriteHeader w code = w\<lparr>status := Some code\<rparr>"

record 'z Helpers =
  parseRateParam :: "Request \<Rightarrow> error + int"
  parseAutoRemoveParam :: "Request \<Rightarrow> error + bool"
  getThrottleOverride :: "'z \<Rightarrow> string \<Rightarrow> error + ThrottleOverrideConfig"
  encode :: "ThrottleOverrideConfig \<Rightarrow> string"

definition getThrottle ::
  "'z Handler \<Rightarrow> 'z Helpers \<Rightarrow> string \<Rightarrow> Response \<Rightarrow> Request \<Rightarrow> 'z \<Rightarrow> Response \<times> 'z" where
  "getThrottle zk h path w req s =
     (case getThrottleOverride h s path of
        Inl err \<Rightarrow> (WriteString w err, s)
      | Inr r \<Rightarrow>
          (if Rate r = 0 then (WriteString w (''no throttle override is set'' @ newline), s)
           else (WriteString w (''a throttle override is configured at '' @ showInt (Rate r)
                                  @ ''MB/s, autoremove=='' @ showBool (AutoRemove r) @ newline), s)))"

definition setThrottle ::
  "'z Handler \<Rightarrow> 'z Helpers \<Rightarrow> string \<Rightarrow> Response \<Rightarrow> Request \<Rightarrow> 'z \<Rightarrow> Response \<times> 'z" where
  "setThrottle zk h path w req s =
     (case parseRateParam h req of
        Inl err \<Rightarrow> (WriteString w err, s)
      | Inr rate \<Rightarrow>
          (case parseAutoRemoveParam h req of
             Inl err \<Rightarrow> (WriteString w err, s)
           | Inr autoRemove \<Rightarrow>
               (let rateCfg = \<lparr>Rate = rate, AutoRemove = autoRemove\<rparr>
                in case setThrottleOverride zk (encode h) s path rateCfg of
                     (Some err, s') \<Rightarrow> (WriteString w (err @ newline), s')
                   | (None, s') \<Rightarrow>
                       (WriteString w (''throttle successfully set to '' @ showInt rate
                                         @ ''MB/s, autoremove=='' @ showBool autoRemove @ newline),
                        s'))))"

definition throttleGetSet ::
  "'z Handler \<Rightarrow> 'z Helpers \<Rightarrow> string \<Rightarrow> Response \<Rightarrow> Request \<Rightarrow> 'z \<Rightarrow> Response \<times> 'z" where
  "throttleGetSet zk h path w req s =
     (if Method req = ''GET'' then getThrottle zk h path w req s
      else if Method req = ''POST'' then setThrottle zk h path w req s
      else (WriteString (WriteHeader w 405) incorrectMethod, s))"

subsection \<open>A store held in memory\<close>

text \<open>
  Modelled from the spec: a coordination store that keeps its znodes in a map from paths
  to data and never loses its connection. It is an instance of the interface on which the
  functions above can be run.
\<close>

definition memoryStore :: "(string \<rightharpoonup> string) Handler" where
  "memoryStore =
     \<lparr>Exists = (\<lambda>s p. (s p \<noteq> None, None)),
      Create = (\<lambda>s p d. if s p \<noteq> None then (Some ''node already exists'', s)
                         else (None, s(p \<mapsto> d))),
      Get = (\<lambda>s p. case s p of None \<Rightarrow> ([], Some ''node does not exist'')
                                | Some d \<Rightarrow> (d, None)),
      Set = (\<lambda>s p d. if s p = None then (Some ''node does not exist'', s)
                      else (None, s(p \<mapsto> d)))\<rparr>"

section \<open>Properties of the limits engine\<close>

subsection \<open>Auxiliary facts\<close>

lemma headroom_known:
  "l (InstanceType b) = Some capacity \<Longrightarrow>
   headroom l (Some b) t =
     (max ((capacity - max (NetTX b - t) 0 - max (NetTX b - capacity) 0)
            * (index l ''maximum'' / 100))
          (index l ''minimum''), None)"
  by (simp add: headroom_def)

lemma replicationHeadroom_leader:
  "l (InstanceType b) = Some capacity \<Longrightarrow>
   replicationHeadroom l (Some b) ''leader'' t =
     Inr (max ((capacity - max (NetTX b - t) 0 - max (NetTX b - capacity) 0)
                * (index l ''srcMax'' / 100))
              (index l ''minimum''), None)"
  by (simp add: replicationHeadroom_def replicationHeadroom_rate_def)

lemma replicationHeadroom_follower:
  "l (InstanceType b) = Some capacity \<Longrightarrow>
   replicationHeadroom l (Some b) ''follower'' t =
     Inr (max ((capacity - max (NetTX b - t) 0 - max (NetRX b - capacity) 0)
                * (index l ''dstMax'' / 100))
              (index l ''minimum''), None)"
  by (simp add: replicationHeadroom_def replicationHeadroom_rate_def)

lemma scaled_floor_mono:
  fixes x y p m :: real
  assumes "0 \<le> p" and "x \<le> y"
  shows "max (x * (p / 100)) m \<le> max (y * (p / 100)) m"
proof -
  have "x * (p / 100) \<le> y * (p / 100)"
    using assms by (intro mult_right_mono) simp_all
  then show ?thesis
    by (rule max.mono) simp
qed

lemma NewLimits_valid:
  assumes "0 < Minimum c" "0 < Maximum c \<and> Maximum c \<le> 100"
      "0 < SourceMaximum c \<and> SourceMaximum c \<le> 100"
      "0 < DestinationMaximum c \<and> DestinationMaximum c \<le> 100"
  shows "NewLimits c =
           Inr ([''minimum'' \<mapsto> Minimum c, ''maximum'' \<mapsto> Maximum c,
                 ''srcMax'' \<mapsto> SourceMaximum c, ''dstMax'' \<mapsto> DestinationMaximum c]
                ++ CapacityMap c)"
  using assms by (simp add: NewLimits_def not_le)

subsection \<open>The floor at the minimum\<close>

text \<open>
  Claim C1. For a non-nil broker whose instance type has an entry in the limits, the rate
  that \<^verbatim>\<open>headroom\<close> returns is at least \<^verbatim>\<open>l["minimum"]\<close>, and so is the rate that
  \<^verbatim>\<open>replicationHeadroom\<close> returns for the role of a source (\<^verbatim>\<open>"leader"\<close>) or of a
  destination (\<^verbatim>\<open>"follower"\<close>), whatever the outbound and inbound utilization of the
  broker and whatever the previous rate.
\<close>

theorem headroom_never_below_minimum:
  assumes known: "l (InstanceType b) = Some capacity"
    and role: "rt = ''leader'' \<or> rt = ''follower''"
  shows "index l ''minimum'' \<le> fst (headroom l (Some b) t)
       \<and> (\<exists>r e. replicationHeadroom l (Some b) rt prevThrottle = Inr (r, e)
                 \<and> index l ''minimum'' \<le> r)"
proof
  show "index l ''minimum'' \<le> fst (headroom l (Some b) t)"
    using known by (simp add: headroom_known)
next
  from role show "\<exists>r e. replicationHeadroom l (Some b) rt prevThrottle = Inr (r, e)
                        \<and> index l ''minimum'' \<le> r"
  proof
    assume "rt = ''leader''"
    with known show ?thesis by (simp add: replicationHeadroom_leader)
  next
    assume "rt = ''follower''"
    with known show ?thesis by (simp add: replicationHeadroom_follower)
  qed
qed

theorem headroom_never_below_minimum_witness:
  "[''minimum'' \<mapsto> 10, ''maximum'' \<mapsto> 90, ''srcMax'' \<mapsto> 90, ''dstMax'' \<mapsto> 90,
    ''d2.2xlarge'' \<mapsto> (120::real)] ''d2.2xlarge'' = Some 120
   \<and> index [''minimum'' \<mapsto> 10, ''maximum'' \<mapsto> 90, ''srcMax'' \<mapsto> 90, ''dstMax'' \<mapsto> 90,
             ''d2.2xlarge'' \<mapsto> 120] ''minimum''
       \<le> fst (headroom [''minimum'' \<mapsto> 10, ''maximum'' \<mapsto> 90, ''srcMax'' \<mapsto> 90,
                         ''dstMax'' \<mapsto> 90, ''d2.2xlarge'' \<mapsto> 120]
             (Some \<lparr>ID = 1001, InstanceType = ''d2.2xlarge'', NetTX = 400, NetRX = 30\<rparr>) 0)
   \<and> (\<exists>r e. replicationHeadroom [''minimum'' \<mapsto> 10, ''maximum'' \<mapsto> 90, ''srcMax'' \<mapsto> 90,
                                   ''dstMax'' \<mapsto> 90, ''d2.2xlarge'' \<mapsto> 120]
               (Some \<lparr>ID = 1001, InstanceType = ''d2.2xlarge'', NetTX = 400, NetRX = 30\<rparr>)
               ''follower'' 0 = Inr (r, e)
            \<and> index [''minimum'' \<mapsto> 10, ''maximum'' \<mapsto> 90, ''srcMax'' \<mapsto> 90, ''dstMax'' \<mapsto> 90,
                      ''d2.2xlarge'' \<mapsto> 120] ''minimum'' \<le> r)"
  using headroom_never_below_minimum
    [of "[''minimum'' \<mapsto> 10, ''maximum'' \<mapsto> 90, ''srcMax'' \<mapsto> 90, ''dstMax'' \<mapsto> 90,
          ''d2.2xlarge'' \<mapsto> 120]"
        "\<lparr>ID = 1001, InstanceType = ''d2.2xlarge'', NetTX = 400, NetRX = 30\<rparr>"
        120 "''follower''" 0 0]
  by simp


subsection \<open>The error returns\<close>

text \<open>
  Claim C2, as the specification states it, fails at two inputs of \<^verbatim>\<open>replicationHeadroom\<close>.
  For an unknown instance type and a role other than \<^verbatim>\<open>"leader"\<close> and \<^verbatim>\<open>"follower"\<close> it
  returns the rate 0 with the invalid-role error, not the minimum (here 10). For a nil
  broker and the role \<^verbatim>\<open>"leader"\<close> it returns nothing: it reads \<^verbatim>\<open>b.NetTX\<close> without the
  nil check that \<^verbatim>\<open>headroom\<close> has, and panics.
\<close>

theorem replicationHeadroom_error_cases_counterexample:
  "[''minimum'' \<mapsto> 10, ''maximum'' \<mapsto> 90, ''srcMax'' \<mapsto> 90, ''dstMax'' \<mapsto> 90,
    ''d2.2xlarge'' \<mapsto> (120::real)] ''m5.large'' = None
   \<and> index [''minimum'' \<mapsto> 10, ''maximum'' \<mapsto> 90, ''srcMax'' \<mapsto> 90, ''dstMax'' \<mapsto> 90,
             ''d2.2xlarge'' \<mapsto> 120] ''minimum'' = 10
   \<and> replicationHeadroom [''minimum'' \<mapsto> 10, ''maximum'' \<mapsto> 90, ''srcMax'' \<mapsto> 90,
                           ''dstMax'' \<mapsto> 90, ''d2.2xlarge'' \<mapsto> 120]
         (Some \<lparr>ID = 1001, InstanceType = ''m5.large'', NetTX = 80, NetRX = 30\<rparr>)
         ''observer'' 0 = Inr (0, Some ''invalid replica type'')
   \<and> replicationHeadroom [''minimum'' \<mapsto> 10, ''maximum'' \<mapsto> 90, ''srcMax'' \<mapsto> 90,
                           ''dstMax'' \<mapsto> 90, ''d2.2xlarge'' \<mapsto> 120]
         None ''leader'' 0 = Inl NilPointerDereference"
  by (simp add: replicationHeadroom_def index_def)

text \<open>
  Claim C2, amended. \<^verbatim>\<open>headroom\<close> returns exactly \<^verbatim>\<open>l["minimum"]\<close> together with an error
  when the broker is nil or its instance type has no entry in the limits.
  \<^verbatim>\<open>replicationHeadroom\<close> returns exactly \<^verbatim>\<open>l["minimum"]\<close> together with an error when
  the broker is not nil, its instance type has no entry, and the role is \<^verbatim>\<open>"leader"\<close> or
  \<^verbatim>\<open>"follower"\<close>; for any other role it returns 0 together with the invalid-role
  error, whatever the broker (the nil broker included) and its instance type. The call of
  \<^verbatim>\<open>replicationHeadroom\<close> with a nil broker and the role \<^verbatim>\<open>"leader"\<close> or \<^verbatim>\<open>"follower"\<close> is
  left out of the statement.
\<close>

theorem headroom_error_returns_minimum:
  "(b = None \<or> (\<exists>br. b = Some br \<and> l (InstanceType br) = None)
      \<longrightarrow> (\<exists>e. headroom l b t = (index l ''minimum'', Some e)))
   \<and> (l (InstanceType br') = None \<and> (rt = ''leader'' \<or> rt = ''follower'')
      \<longrightarrow> (\<exists>e. replicationHeadroom l (Some br') rt prevThrottle
                 = Inr (index l ''minimum'', Some e)))
   \<and> (rt' \<noteq> ''leader'' \<and> rt' \<noteq> ''follower''
      \<longrightarrow> replicationHeadroom l b' rt' prevThrottle' = Inr (0, Some ''invalid replica type''))"
proof (intro conjI impI)
  assume "b = None \<or> (\<exists>br. b = Some br \<and> l (InstanceType br) = None)"
  then show "\<exists>e. headroom l b t = (index l ''minimum'', Some e)"
  proof
    assume "b = None"
    then show ?thesis by (simp add: headroom_def)
  next
    assume "\<exists>br. b = Some br \<and> l (InstanceType br) = None"
    then obtain br where "b = Some br" and "l (InstanceType br) = None" by blast
    then show ?thesis by (simp add: headroom_def)
  qed
next
  assume h: "l (InstanceType br') = None \<and> (rt = ''leader'' \<or> rt = ''follower'')"
  then have unknown: "l (InstanceType br') = None" and role: "rt = ''leader'' \<or> rt = ''follower''"
    by simp_all
  from role show "\<exists>e. replicationHeadroom l (Some br') rt prevThrottle
                      = Inr (index l ''minimum'', Some e)"
  proof
    assume "rt = ''leader''"
    with unknown show ?thesis
      by (simp add: replicationHeadroom_def replicationHeadroom_rate_def)
  next
    assume "rt = ''follower''"
    with unknown show ?thesis
      by (simp add: replicationHeadroom_def replicationHeadroom_rate_def)
  qed
next
  assume "rt' \<noteq> ''leader'' \<and> rt' \<noteq> ''follower''"
  then show "replicationHeadroom l b' rt' prevThrottle' = Inr (0, Some ''invalid replica type'')"
    by (simp add: replicationHeadroom_def)
qed

theorem headroom_error_returns_minimum_witness:
  "(\<exists>e. headroom [''minimum'' \<mapsto> 10, ''maximum'' \<mapsto> 90, ''srcMax'' \<mapsto> 90, ''dstMax'' \<mapsto> 90,
                   ''d2.2xlarge'' \<mapsto> 120] None 0
         = (index [''minimum'' \<mapsto> 10, ''maximum'' \<mapsto> 90, ''srcMax'' \<mapsto> 90, ''dstMax'' \<mapsto> 90,
                   ''d2.2xlarge'' \<mapsto> 120] ''minimum'', Some e))
   \<and> [''minimum'' \<mapsto> 10, ''maximum'' \<mapsto> 90, ''srcMax'' \<mapsto> 90, ''dstMax'' \<mapsto> 90,
      ''d2.2xlarge'' \<mapsto> (120::real)] ''m5.large'' = None
   \<and> (\<exists>e. replicationHeadroom [''minimum'' \<mapsto> 10, ''maximum'' \<mapsto> 90, ''srcMax'' \<mapsto> 90,
                                 ''dstMax'' \<mapsto> 90, ''d2.2xlarge'' \<mapsto> 120]
             (Some \<lparr>ID = 1001, InstanceType = ''m5.large'', NetTX = 80, NetRX = 30\<rparr>)
             ''leader'' 0
         = Inr (index [''minimum'' \<mapsto> 10, ''maximum'' \<mapsto> 90, ''srcMax'' \<mapsto> 90, ''dstMax'' \<mapsto> 90,
                       ''d2.2xlarge'' \<mapsto> 120] ''minimum'', Some e))
   \<and> replicationHeadroom [''minimum'' \<mapsto> 10, ''maximum'' \<mapsto> 90, ''srcMax'' \<mapsto> 90,
                           ''dstMax'' \<mapsto> 90, ''d2.2xlarge'' \<mapsto> 120]
         None ''observer'' 0 = Inr (0, Some ''invalid replica type'')"
  using headroom_error_returns_minimum
    [where b = None
       and l = "[''minimum'' \<mapsto> 10, ''maximum'' \<mapsto> 90, ''srcMax'' \<mapsto> 90, ''dstMax'' \<mapsto> 90,
                 ''d2.2xlarge'' \<mapsto> 120]"
       and t = 0
       and br' = "\<lparr>ID = 1001, InstanceType = ''m5.large'', NetTX = 80, NetRX = 30\<rparr>"
       and rt = "''leader''" and prevThrottle = 0
       and rt' = "''observer''" and b' = None and prevThrottle' = 0]
  by simp

subsection \<open>The rate formula\<close>

text \<open>
  Claim C3. For a non-nil broker whose instance type has the capacity entry \<open>capacity\<close>,
  and every previous rate \<open>t\<close>, \<^verbatim>\<open>headroom\<close> returns
  \<open>max((capacity - max(outbound - t, 0) - max(outbound - capacity, 0)) * (maximum / 100), minimum)\<close>
  and no error.
\<close>

theorem headroom_formula:
  assumes "l (InstanceType b) = Some capacity"
  shows "headroom l (Some b) t =
           (max ((capacity - max (NetTX b - t) 0 - max (NetTX b - capacity) 0)
                  * (index l ''maximum'' / 100))
                (index l ''minimum''), None)"
  using assms by (simp add: headroom_def)

theorem headroom_formula_witness:
  "[''minimum'' \<mapsto> 10, ''maximum'' \<mapsto> 90, ''srcMax'' \<mapsto> 90, ''dstMax'' \<mapsto> 90,
    ''d2.2xlarge'' \<mapsto> (120::real)] ''d2.2xlarge'' = Some 120
   \<and> headroom [''minimum'' \<mapsto> 10, ''maximum'' \<mapsto> 90, ''srcMax'' \<mapsto> 90, ''dstMax'' \<mapsto> 90,
                ''d2.2xlarge'' \<mapsto> 120]
        (Some \<lparr>ID = 1001, InstanceType = ''d2.2xlarge'', NetTX = 100, NetRX = 30\<rparr>) 40
      = (54, None)"
  using headroom_formula
    [of "[''minimum'' \<mapsto> 10, ''maximum'' \<mapsto> 90, ''srcMax'' \<mapsto> 90, ''dstMax'' \<mapsto> 90,
          ''d2.2xlarge'' \<mapsto> 120]"
        "\<lparr>ID = 1001, InstanceType = ''d2.2xlarge'', NetTX = 100, NetRX = 30\<rparr>"
        120 40]
  by (simp add: index_def)


subsection \<open>Selection by role\<close>

text \<open>
  Claim C4. For a broker of known instance type, \<^verbatim>\<open>replicationHeadroom\<close> with the role of
  a source (\<^verbatim>\<open>"leader"\<close>) takes the outbound utilization for the over-capacity term and
  the source portion \<^verbatim>\<open>l["srcMax"]\<close>; with the role of a destination (\<^verbatim>\<open>"follower"\<close>) it
  takes the inbound utilization and the destination portion \<^verbatim>\<open>l["dstMax"]\<close>; for any other
  role it returns 0 together with the invalid-role error.
\<close>

theorem replicationHeadroom_role_selection:
  assumes known: "l (InstanceType b) = Some capacity"
  shows "replicationHeadroom l (Some b) ''leader'' t =
           Inr (max ((capacity - max (NetTX b - t) 0 - max (NetTX b - capacity) 0)
                      * (index l ''srcMax'' / 100))
                    (index l ''minimum''), None)
       \<and> replicationHeadroom l (Some b) ''follower'' t =
           Inr (max ((capacity - max (NetTX b - t) 0 - max (NetRX b - capacity) 0)
                      * (index l ''dstMax'' / 100))
                    (index l ''minimum''), None)
       \<and> (rt \<noteq> ''leader'' \<and> rt \<noteq> ''follower''
            \<longrightarrow> replicationHeadroom l (Some b) rt t = Inr (0, Some ''invalid replica type''))"
proof (intro conjI impI)
  show "replicationHeadroom l (Some b) ''leader'' t =
          Inr (max ((capacity - max (NetTX b - t) 0 - max (NetTX b - capacity) 0)
                     * (index l ''srcMax'' / 100))
                   (index l ''minimum''), None)"
    using known by (rule replicationHeadroom_leader)
next
  show "replicationHeadroom l (Some b) ''follower'' t =
          Inr (max ((capacity - max (NetTX b - t) 0 - max (NetRX b - capacity) 0)
                     * (index l ''dstMax'' / 100))
                   (index l ''minimum''), None)"
    using known by (rule replicationHeadroom_follower)
next
  assume "rt \<noteq> ''leader'' \<and> rt \<noteq> ''follower''"
  then show "replicationHeadroom l (Some b) rt t = Inr (0, Some ''invalid replica type'')"
    by (simp add: replicationHeadroom_def)
qed

theorem replicationHeadroom_role_selection_witness:
  "[''minimum'' \<mapsto> 10, ''maximum'' \<mapsto> 90, ''srcMax'' \<mapsto> 80, ''dstMax'' \<mapsto> 50,
    ''d2.2xlarge'' \<mapsto> (120::real)] ''d2.2xlarge'' = Some 120
   \<and> replicationHeadroom [''minimum'' \<mapsto> 10, ''maximum'' \<mapsto> 90, ''srcMax'' \<mapsto> 80,
                           ''dstMax'' \<mapsto> 50, ''d2.2xlarge'' \<mapsto> 120]
        (Some \<lparr>ID = 1001, InstanceType = ''d2.2xlarge'', NetTX = 130, NetRX = 150\<rparr>)
        ''leader'' 60 = Inr (32, None)
   \<and> replicationHeadroom [''minimum'' \<mapsto> 10, ''maximum'' \<mapsto> 90, ''srcMax'' \<mapsto> 80,
                           ''dstMax'' \<mapsto> 50, ''d2.2xlarge'' \<mapsto> 120]
        (Some \<lparr>ID = 1001, InstanceType = ''d2.2xlarge'', NetTX = 130, NetRX = 150\<rparr>)
        ''follower'' 60 = Inr (10, None)
   \<and> replicationHeadroom [''minimum'' \<mapsto> 10, ''maximum'' \<mapsto> 90, ''srcMax'' \<mapsto> 80,
                           ''dstMax'' \<mapsto> 50, ''d2.2xlarge'' \<mapsto> 120]
        (Some \<lparr>ID = 1001, InstanceType = ''d2.2xlarge'', NetTX = 130, NetRX = 150\<rparr>)
        ''source'' 60 = Inr (0, Some ''invalid replica type'')"
  using replicationHeadroom_role_selection
    [of "[''minimum'' \<mapsto> 10, ''maximum'' \<mapsto> 90, ''srcMax'' \<mapsto> 80, ''dstMax'' \<mapsto> 50,
          ''d2.2xlarge'' \<mapsto> 120]"
        "\<lparr>ID = 1001, InstanceType = ''d2.2xlarge'', NetTX = 130, NetRX = 150\<rparr>"
        120 60 "''source''"]
  by (simp add: index_def)

text \<open>
  Claim C5. In \<^verbatim>\<open>replicationHeadroom\<close>, for the role of a source and for the role of a
  destination alike, the non-throttle-utilization term is
  \<open>max(outbound utilization - previous rate, 0)\<close>: it is computed from the outbound
  utilization whatever the role. The over-capacity term is computed from the utilization
  that the role selects (outbound for a source, inbound for a destination) against the
  capacity.
\<close>

theorem replicationHeadroom_terms:
  assumes known: "l (InstanceType b) = Some capacity"
    and role: "rt = ''leader'' \<or> rt = ''follower''"
  shows "replicationHeadroom l (Some b) rt prevThrottle =
           Inr (spec_rate capacity
                  (spec_nonThrottleUtil (NetTX b) prevThrottle)
                  (spec_overCap (if rt = ''leader'' then NetTX b else NetRX b) capacity)
                  (if rt = ''leader'' then index l ''srcMax'' else index l ''dstMax'')
                  (index l ''minimum''), None)"
  using role
proof
  assume "rt = ''leader''"
  with known show ?thesis
    by (simp add: replicationHeadroom_leader spec_rate_def spec_nonThrottleUtil_def
        spec_overCap_def)
next
  assume "rt = ''follower''"
  with known show ?thesis
    by (simp add: replicationHeadroom_follower spec_rate_def spec_nonThrottleUtil_def
        spec_overCap_def)
qed

theorem replicationHeadroom_terms_witness:
  "[''minimum'' \<mapsto> 10, ''maximum'' \<mapsto> 90, ''srcMax'' \<mapsto> 80, ''dstMax'' \<mapsto> 50,
    ''d2.2xlarge'' \<mapsto> (120::real)] ''d2.2xlarge'' = Some 120
   \<and> spec_nonThrottleUtil 70 60 = 10
   \<and> spec_overCap 140 120 = 20
   \<and> replicationHeadroom [''minimum'' \<mapsto> 10, ''maximum'' \<mapsto> 90, ''srcMax'' \<mapsto> 80,
                           ''dstMax'' \<mapsto> 50, ''d2.2xlarge'' \<mapsto> 120]
        (Some \<lparr>ID = 1001, InstanceType = ''d2.2xlarge'', NetTX = 70, NetRX = 140\<rparr>)
        ''follower'' 60 = Inr (spec_rate 120 10 20 50 10, None)
   \<and> spec_rate 120 10 20 50 10 = 45"
  using replicationHeadroom_terms
    [of "[''minimum'' \<mapsto> 10, ''maximum'' \<mapsto> 90, ''srcMax'' \<mapsto> 80, ''dstMax'' \<mapsto> 50,
          ''d2.2xlarge'' \<mapsto> 120]"
        "\<lparr>ID = 1001, InstanceType = ''d2.2xlarge'', NetTX = 70, NetRX = 140\<rparr>"
        120 "''follower''" 60]
  by (simp add: index_def spec_nonThrottleUtil_def spec_overCap_def spec_rate_def)


subsection \<open>Monotonicity of the rate\<close>

text \<open>
  Claim C6, as the specification states it, fails for limits whose \<^verbatim>\<open>"maximum"\<close> entry is
  negative. \<^verbatim>\<open>NewLimits\<close> builds such limits from a configuration that passes its
  validation when the capacity map has the key \<^verbatim>\<open>"maximum"\<close>. With the capacity 100 and
  the previous rate 0, the rate then rises from 50 to 100 as the outbound utilization rises
  from 150 to 200.
\<close>

theorem headroom_not_antitone_counterexample:
  "NewLimits \<lparr>Minimum = 10, Maximum = 90, SourceMaximum = 90, DestinationMaximum = 90,
              CapacityMap = [''maximum'' \<mapsto> - 50, ''d2.2xlarge'' \<mapsto> 100]\<rparr>
     = Inr ([''minimum'' \<mapsto> 10, ''maximum'' \<mapsto> 90, ''srcMax'' \<mapsto> 90, ''dstMax'' \<mapsto> 90]
            ++ [''maximum'' \<mapsto> - 50, ''d2.2xlarge'' \<mapsto> 100])
   \<and> headroom ([''minimum'' \<mapsto> 10, ''maximum'' \<mapsto> 90, ''srcMax'' \<mapsto> 90, ''dstMax'' \<mapsto> 90]
                ++ [''maximum'' \<mapsto> - 50, ''d2.2xlarge'' \<mapsto> 100])
        (Some \<lparr>ID = 1001, InstanceType = ''d2.2xlarge'', NetTX = 150, NetRX = 0\<rparr>) 0
      = (50, None)
   \<and> headroom ([''minimum'' \<mapsto> 10, ''maximum'' \<mapsto> 90, ''srcMax'' \<mapsto> 90, ''dstMax'' \<mapsto> 90]
                ++ [''maximum'' \<mapsto> - 50, ''d2.2xlarge'' \<mapsto> 100])
        (Some \<lparr>ID = 1001, InstanceType = ''d2.2xlarge'', NetTX = 200, NetRX = 0\<rparr>) 0
      = (100, None)"
  by (simp add: NewLimits_def headroom_def index_def)

text \<open>
  Claim C6, amended. For limits whose \<^verbatim>\<open>"maximum"\<close> entry is not negative, and a broker of
  known instance type, with the capacity and the previous rate held fixed the rate computed
  by \<^verbatim>\<open>headroom\<close> does not increase as the outbound utilization increases; with the
  capacity and the utilization held fixed it does not decrease as the previous rate
  increases; and it is never below \<^verbatim>\<open>l["minimum"]\<close>.
\<close>

theorem headroom_monotone:
  assumes known: "l (InstanceType b) = Some capacity"
    and portion: "0 \<le> index l ''maximum''"
  shows "(u \<le> u' \<longrightarrow>
            fst (headroom l (Some (b\<lparr>NetTX := u'\<rparr>)) t)
              \<le> fst (headroom l (Some (b\<lparr>NetTX := u\<rparr>)) t))
       \<and> (t \<le> t' \<longrightarrow> fst (headroom l (Some b) t) \<le> fst (headroom l (Some b) t'))
       \<and> index l ''minimum'' \<le> fst (headroom l (Some b) t)"
proof (intro conjI impI)
  assume le: "u \<le> u'"
  have "capacity - max (u' - t) 0 - max (u' - capacity) 0
          \<le> capacity - max (u - t) 0 - max (u - capacity) 0"
    using le by linarith
  from scaled_floor_mono [OF portion this]
  show "fst (headroom l (Some (b\<lparr>NetTX := u'\<rparr>)) t)
          \<le> fst (headroom l (Some (b\<lparr>NetTX := u\<rparr>)) t)"
    using known by (simp add: headroom_known)
next
  assume le: "t \<le> t'"
  have "capacity - max (NetTX b - t) 0 - max (NetTX b - capacity) 0
          \<le> capacity - max (NetTX b - t') 0 - max (NetTX b - capacity) 0"
    using le by linarith
  from scaled_floor_mono [OF portion this]
  show "fst (headroom l (Some b) t) \<le> fst (headroom l (Some b) t')"
    using known by (simp add: headroom_known)
next
  show "index l ''minimum'' \<le> fst (headroom l (Some b) t)"
    using known by (simp add: headroom_known)
qed

theorem headroom_monotone_witness:
  "[''minimum'' \<mapsto> 10, ''maximum'' \<mapsto> 90, ''srcMax'' \<mapsto> 90, ''dstMax'' \<mapsto> 90,
    ''d2.2xlarge'' \<mapsto> (120::real)] ''d2.2xlarge'' = Some 120
   \<and> 0 \<le> index [''minimum'' \<mapsto> 10, ''maximum'' \<mapsto> 90, ''srcMax'' \<mapsto> 90, ''dstMax'' \<mapsto> 90,
                  ''d2.2xlarge'' \<mapsto> 120] ''maximum''
   \<and> fst (headroom [''minimum'' \<mapsto> 10, ''maximum'' \<mapsto> 90, ''srcMax'' \<mapsto> 90, ''dstMax'' \<mapsto> 90,
                     ''d2.2xlarge'' \<mapsto> 120]
            (Some (\<lparr>ID = 1001, InstanceType = ''d2.2xlarge'', NetTX = 100, NetRX = 30\<rparr>
                    \<lparr>NetTX := 90\<rparr>)) 40)
       \<le> fst (headroom [''minimum'' \<mapsto> 10, ''maximum'' \<mapsto> 90, ''srcMax'' \<mapsto> 90,
                         ''dstMax'' \<mapsto> 90, ''d2.2xlarge'' \<mapsto> 120]
                (Some (\<lparr>ID = 1001, InstanceType = ''d2.2xlarge'', NetTX = 100, NetRX = 30\<rparr>
                        \<lparr>NetTX := 60\<rparr>)) 40)
   \<and> fst (headroom [''minimum'' \<mapsto> 10, ''maximum'' \<mapsto> 90, ''srcMax'' \<mapsto> 90, ''dstMax'' \<mapsto> 90,
                     ''d2.2xlarge'' \<mapsto> 120]
            (Some \<lparr>ID = 1001, InstanceType = ''d2.2xlarge'', NetTX = 100, NetRX = 30\<rparr>) 40)
       \<le> fst (headroom [''minimum'' \<mapsto> 10, ''maximum'' \<mapsto> 90, ''srcMax'' \<mapsto> 90,
                         ''dstMax'' \<mapsto> 90, ''d2.2xlarge'' \<mapsto> 120]
                (Some \<lparr>ID = 1001, InstanceType = ''d2.2xlarge'', NetTX = 100, NetRX = 30\<rparr>) 70)"
  using headroom_monotone
    [of "[''minimum'' \<mapsto> 10, ''maximum'' \<mapsto> 90, ''srcMax'' \<mapsto> 90, ''dstMax'' \<mapsto> 90,
          ''d2.2xlarge'' \<mapsto> 120]"
        "\<lparr>ID = 1001, InstanceType = ''d2.2xlarge'', NetTX = 100, NetRX = 30\<rparr>"
        120 60 90 40 70]
  by (simp add: index_def)

subsection \<open>Construction of the limits\<close>

text \<open>
  Claim C7. \<^verbatim>\<open>NewLimits\<close> returns an error, and no limits, exactly when \<^verbatim>\<open>Minimum\<close> is at
  most 0 or one of \<^verbatim>\<open>Maximum\<close>, \<^verbatim>\<open>SourceMaximum\<close>, \<^verbatim>\<open>DestinationMaximum\<close> is at most 0
  or above 100. In particular a portion of exactly 100 is accepted and a portion of
  100.0001 is rejected.
\<close>

theorem NewLimits_error_iff:
  "((\<exists>e. NewLimits c = Inl e) \<longleftrightarrow>
      (Minimum c \<le> 0
       \<or> Maximum c \<le> 0 \<or> Maximum c > 100
       \<or> SourceMaximum c \<le> 0 \<or> SourceMaximum c > 100
       \<or> DestinationMaximum c \<le> 0 \<or> DestinationMaximum c > 100))
   \<and> NewLimits \<lparr>Minimum = 10, Maximum = 100, SourceMaximum = 100, DestinationMaximum = 100,
                CapacityMap = cm\<rparr>
       = Inr ([''minimum'' \<mapsto> 10, ''maximum'' \<mapsto> 100, ''srcMax'' \<mapsto> 100, ''dstMax'' \<mapsto> 100]
              ++ cm)
   \<and> NewLimits \<lparr>Minimum = 10, Maximum = 100.0001, SourceMaximum = 100,
                DestinationMaximum = 100, CapacityMap = cm\<rparr>
       = Inl ''maximum must be > 0 and < 100''
   \<and> NewLimits \<lparr>Minimum = 10, Maximum = 100, SourceMaximum = 100.0001,
                DestinationMaximum = 100, CapacityMap = cm\<rparr>
       = Inl ''source maximum must be > 0 and < 100''
   \<and> NewLimits \<lparr>Minimum = 10, Maximum = 100, SourceMaximum = 100,
                DestinationMaximum = 100.0001, CapacityMap = cm\<rparr>
       = Inl ''destination maximum must be > 0 and < 100''"
  by (auto simp: NewLimits_def)

text \<open>
  Claim C10. For a configuration that passes the validation, \<^verbatim>\<open>NewLimits\<close> returns limits
  in which each of the keys \<^verbatim>\<open>"minimum"\<close>, \<^verbatim>\<open>"maximum"\<close>, \<^verbatim>\<open>"srcMax"\<close>, \<^verbatim>\<open>"dstMax"\<close> that
  the capacity map does not have is mapped to the validated scalar of the configuration,
  while every key that the capacity map has, these four included, is mapped to the
  capacity map's value: an entry of the capacity map under one of the four keys replaces
  the validated scalar.
\<close>

theorem NewLimits_sentinel_keys:
  assumes valid: "0 < Minimum c" "0 < Maximum c \<and> Maximum c \<le> 100"
      "0 < SourceMaximum c \<and> SourceMaximum c \<le> 100"
      "0 < DestinationMaximum c \<and> DestinationMaximum c \<le> 100"
  shows "\<exists>lm. NewLimits c = Inr lm
          \<and> (CapacityMap c ''minimum'' = None \<longrightarrow> lm ''minimum'' = Some (Minimum c))
          \<and> (CapacityMap c ''maximum'' = None \<longrightarrow> lm ''maximum'' = Some (Maximum c))
          \<and> (CapacityMap c ''srcMax'' = None \<longrightarrow> lm ''srcMax'' = Some (SourceMaximum c))
          \<and> (CapacityMap c ''dstMax'' = None \<longrightarrow> lm ''dstMax'' = Some (DestinationMaximum c))
          \<and> (\<forall>k v. CapacityMap c k = Some v \<longrightarrow> lm k = Some v)"
proof -
  define base :: Limits where
    "base = [''minimum'' \<mapsto> Minimum c, ''maximum'' \<mapsto> Maximum c,
             ''srcMax'' \<mapsto> SourceMaximum c, ''dstMax'' \<mapsto> DestinationMaximum c]"
  have built: "NewLimits c = Inr (base ++ CapacityMap c)"
    unfolding base_def using valid by (rule NewLimits_valid)
  have b1: "base ''minimum'' = Some (Minimum c)" by (simp add: base_def)
  have b2: "base ''maximum'' = Some (Maximum c)" by (simp add: base_def)
  have b3: "base ''srcMax'' = Some (SourceMaximum c)" by (simp add: base_def)
  have b4: "base ''dstMax'' = Some (DestinationMaximum c)" by (simp add: base_def)
  have absent: "\<And>k. CapacityMap c k = None \<Longrightarrow> (base ++ CapacityMap c) k = base k"
    by (simp add: map_add_def)
  have present: "\<And>k v. CapacityMap c k = Some v \<Longrightarrow> (base ++ CapacityMap c) k = Some v"
    by (simp add: map_add_def)
  show ?thesis
  proof (intro exI conjI impI allI)
    show "NewLimits c = Inr (base ++ CapacityMap c)" by (rule built)
  qed (simp_all add: absent present b1 b2 b3 b4)
qed

theorem NewLimits_sentinel_keys_witness:
  "\<exists>lm. NewLimits \<lparr>Minimum = 10, Maximum = 90, SourceMaximum = 80, DestinationMaximum = 70,
                    CapacityMap = [''minimum'' \<mapsto> 5, ''d2.2xlarge'' \<mapsto> 120]\<rparr> = Inr lm
        \<and> lm ''minimum'' = Some 5 \<and> lm ''maximum'' = Some 90 \<and> lm ''srcMax'' = Some 80
        \<and> lm ''dstMax'' = Some 70 \<and> lm ''d2.2xlarge'' = Some 120"
  using NewLimits_sentinel_keys
    [of "\<lparr>Minimum = 10, Maximum = 90, SourceMaximum = 80, DestinationMaximum = 70,
          CapacityMap = [''minimum'' \<mapsto> 5, ''d2.2xlarge'' \<mapsto> 120]\<rparr>"]
  by (simp add: NewLimits_def)

section \<open>Properties of the administrative API\<close>

subsection \<open>Migration of the legacy record\<close>

text \<open>
  Claim C8. On initialization, when the override record exists, \<^verbatim>\<open>initAPI\<close> reads it. If
  the content parses as a bare integer (\<^verbatim>\<open>strconv.Atoi\<close> succeeds), the record is
  overwritten, by the \<^verbatim>\<open>Set\<close> of the store at the record's path, with the serialized
  \<^verbatim>\<open>ThrottleOverrideConfig\<close> whose rate is that integer and whose auto-remove flag is
  false; initialization is fatal if the store reports an error for this write, and
  otherwise the migration is logged. If the content does not parse as a bare integer, the
  store is left as it was.
\<close>

theorem initAPI_legacy_migration:
  assumes present: "Exists zk s (''/'' @ ZKPrefix c @ ''/override_rate'') = (True, None)"
  shows "(Atoi (fst (Get zk s (''/'' @ ZKPrefix c @ ''/override_rate''))) = Some rate \<longrightarrow>
            initAPI zk enc c s =
              (case Set zk s (''/'' @ ZKPrefix c @ ''/override_rate'')
                      (enc \<lparr>Rate = rate, AutoRemove = False\<rparr>) of
                 (Some err, s') \<Rightarrow> Fatal err
               | (None, s') \<Rightarrow>
                   Running \<lparr>config = c\<lparr>RateSetting := ''override_rate''\<rparr>,
                            overrideRateZnodePath = ''/'' @ ZKPrefix c @ ''/override_rate'',
                            store = s',
                            logged = [''Throttle override config format updated'']\<rparr>))
       \<and> (Atoi (fst (Get zk s (''/'' @ ZKPrefix c @ ''/override_rate''))) = None \<longrightarrow>
            initAPI zk enc c s =
              Running \<lparr>config = c\<lparr>RateSetting := ''override_rate''\<rparr>,
                       overrideRateZnodePath = ''/'' @ ZKPrefix c @ ''/override_rate'',
                       store = s, logged = []\<rparr>)"
  using present
  by (simp add: initAPI_def overrideRateZnode_def setThrottleOverride_def Let_def
      split: prod.splits option.splits)


text \<open>
  The scenario of the specification: the record holds the bare string \<^verbatim>\<open>150\<close>; after
  initialization it holds the structured form with the rate 150 and the flag false. A
  record that already holds a structured form is not touched.
\<close>

theorem initAPI_legacy_migration_witness:
  "initAPI memoryStore
     (\<lambda>c. ''{rate:'' @ showInt (Rate c) @ '',autoremove:'' @ showBool (AutoRemove c) @ ''}'')
     \<lparr>Listen = ''localhost:8080'', ZKPrefix = ''autothrottle'', RateSetting = []\<rparr>
     [''/autothrottle/override_rate'' \<mapsto> ''150'']
   = Running \<lparr>config = \<lparr>Listen = ''localhost:8080'', ZKPrefix = ''autothrottle'',
                         RateSetting = ''override_rate''\<rparr>,
              overrideRateZnodePath = ''/autothrottle/override_rate'',
              store = [''/autothrottle/override_rate'' \<mapsto> ''{rate:150,autoremove:false}''],
              logged = [''Throttle override config format updated'']\<rparr>
   \<and> initAPI memoryStore
     (\<lambda>c. ''{rate:'' @ showInt (Rate c) @ '',autoremove:'' @ showBool (AutoRemove c) @ ''}'')
     \<lparr>Listen = ''localhost:8080'', ZKPrefix = ''autothrottle'', RateSetting = []\<rparr>
     [''/autothrottle/override_rate'' \<mapsto> ''{rate:200,autoremove:true}'']
   = Running \<lparr>config = \<lparr>Listen = ''localhost:8080'', ZKPrefix = ''autothrottle'',
                         RateSetting = ''override_rate''\<rparr>,
              overrideRateZnodePath = ''/autothrottle/override_rate'',
              store = [''/autothrottle/override_rate'' \<mapsto> ''{rate:200,autoremove:true}''],
              logged = []\<rparr>"
  using initAPI_legacy_migration
    [of memoryStore "[''/autothrottle/override_rate'' \<mapsto> ''150'']"
        "\<lparr>Listen = ''localhost:8080'', ZKPrefix = ''autothrottle'', RateSetting = []\<rparr>"
        150
        "\<lambda>c. ''{rate:'' @ showInt (Rate c) @ '',autoremove:'' @ showBool (AutoRemove c) @ ''}''"]
    initAPI_legacy_migration
    [of memoryStore "[''/autothrottle/override_rate'' \<mapsto> ''{rate:200,autoremove:true}'']"
        "\<lparr>Listen = ''localhost:8080'', ZKPrefix = ''autothrottle'', RateSetting = []\<rparr>"
        150
        "\<lambda>c. ''{rate:'' @ showInt (Rate c) @ '',autoremove:'' @ showBool (AutoRemove c) @ ''}''"]
  by (simp add: memoryStore_def Atoi_def showInt_def showNat.simps showBool_def)

text \<open>
  On the store held in memory the write cannot fail, and the outcome of \<^verbatim>\<open>initAPI\<close> for
  a record that exists is determined by the content of the record alone.
\<close>

lemma initAPI_memoryStore:
  assumes "m (''/'' @ ZKPrefix c @ ''/override_rate'') = Some content"
  shows "initAPI memoryStore enc c m =
           (case Atoi content of
              Some rate \<Rightarrow>
                Running \<lparr>config = c\<lparr>RateSetting := ''override_rate''\<rparr>,
                         overrideRateZnodePath = ''/'' @ ZKPrefix c @ ''/override_rate'',
                         store = m(''/'' @ ZKPrefix c @ ''/override_rate''
                                     \<mapsto> enc \<lparr>Rate = rate, AutoRemove = False\<rparr>),
                         logged = [''Throttle override config format updated'']\<rparr>
            | None \<Rightarrow>
                Running \<lparr>config = c\<lparr>RateSetting := ''override_rate''\<rparr>,
                         overrideRateZnodePath = ''/'' @ ZKPrefix c @ ''/override_rate'',
                         store = m, logged = []\<rparr>)"
  using assms
  by (simp add: initAPI_def overrideRateZnode_def setThrottleOverride_def memoryStore_def Let_def
      split: option.splits)

subsection \<open>Requests with bad parameters\<close>

text \<open>
  Claim C9. A POST to the throttle route is handled by \<^verbatim>\<open>setThrottle\<close>. When the rate
  parameter fails to parse, or the rate parses and the autoremove parameter fails to
  parse, \<^verbatim>\<open>setThrottle\<close> appends the text of the parse error to the response body and
  returns with the store as it was, whatever the store's \<^verbatim>\<open>Set\<close> would have done: the
  override record is not written.
\<close>

theorem setThrottle_parse_failure:
  "(Method req = ''POST'' \<longrightarrow>
      throttleGetSet zk h path w req s = setThrottle zk h path w req s)
   \<and> (parseRateParam h req = Inl err \<longrightarrow>
        setThrottle zk h path w req s = (w\<lparr>body := body w @ err\<rparr>, s))
   \<and> (parseRateParam h req = Inr rate \<and> parseAutoRemoveParam h req = Inl err \<longrightarrow>
        setThrottle zk h path w req s = (w\<lparr>body := body w @ err\<rparr>, s))"
  by (simp add: throttleGetSet_def setThrottle_def WriteString_def)

theorem setThrottle_parse_failure_witness:
  "throttleGetSet memoryStore
     \<lparr>parseRateParam = (\<lambda>r. if URL r = ''/throttle?rate=fast'' then Inl ''invalid syntax''
                              else Inr 200),
      parseAutoRemoveParam = (\<lambda>r. if URL r = ''/throttle?rate=200&autoremove=maybe''
                                    then Inl ''invalid syntax'' else Inr False),
      getThrottleOverride = (\<lambda>s p. Inl ''unused''),
      encode = (\<lambda>c. showInt (Rate c))\<rparr>
     ''/autothrottle/override_rate'' \<lparr>status = None, body = []\<rparr>
     \<lparr>Method = ''POST'', URL = ''/throttle?rate=fast''\<rparr>
     [''/autothrottle/override_rate'' \<mapsto> ''100'']
   = (\<lparr>status = None, body = ''invalid syntax''\<rparr>,
      [''/autothrottle/override_rate'' \<mapsto> ''100''])
   \<and> setThrottle memoryStore
     \<lparr>parseRateParam = (\<lambda>r. if URL r = ''/throttle?rate=fast'' then Inl ''invalid syntax''
                              else Inr 200),
      parseAutoRemoveParam = (\<lambda>r. if URL r = ''/throttle?rate=200&autoremove=maybe''
                                    then Inl ''invalid syntax'' else Inr False),
      getThrottleOverride = (\<lambda>s p. Inl ''unused''),
      encode = (\<lambda>c. showInt (Rate c))\<rparr>
     ''/autothrottle/override_rate'' \<lparr>status = None, body = []\<rparr>
     \<lparr>Method = ''POST'', URL = ''/throttle?rate=200&autoremove=maybe''\<rparr>
     [''/autothrottle/override_rate'' \<mapsto> ''100'']
   = (\<lparr>status = None, body = ''invalid syntax''\<rparr>,
      [''/autothrottle/override_rate'' \<mapsto> ''100''])"
  using
    setThrottle_parse_failure
      [of "\<lparr>Method = ''POST'', URL = ''/throttle?rate=fast''\<rparr>"
          memoryStore
          "\<lparr>parseRateParam = (\<lambda>r. if URL r = ''/throttle?rate=fast'' then Inl ''invalid syntax''
                                   else Inr 200),
            parseAutoRemoveParam = (\<lambda>r. if URL r = ''/throttle?rate=200&autoremove=maybe''
                                         then Inl ''invalid syntax'' else Inr False),
            getThrottleOverride = (\<lambda>s p. Inl ''unused''),
            encode = (\<lambda>c. showInt (Rate c))\<rparr>"
          "''/autothrottle/override_rate''" "\<lparr>status = None, body = []\<rparr>"
          "[''/autothrottle/override_rate'' \<mapsto> ''100'']" "''invalid syntax''" 200]
    setThrottle_parse_failure
      [of "\<lparr>Method = ''POST'', URL = ''/throttle?rate=200&autoremove=maybe''\<rparr>"
          memoryStore
          "\<lparr>parseRateParam = (\<lambda>r. if URL r = ''/throttle?rate=fast'' then Inl ''invalid syntax''
                                   else Inr 200),
            parseAutoRemoveParam = (\<lambda>r. if URL r = ''/throttle?rate=200&autoremove=maybe''
                                         then Inl ''invalid syntax'' else Inr False),
            getThrottleOverride = (\<lambda>s p. Inl ''unused''),
            encode = (\<lambda>c. showInt (Rate c))\<rparr>"
          "''/autothrottle/override_rate''" "\<lparr>status = None, body = []\<rparr>"
          "[''/autothrottle/override_rate'' \<mapsto> ''100'']" "''invalid syntax''" 200]
  by simp

end
